theory Spec2Isabelle
  imports Complex_Main "HOL-Library.AList" "HOL-Library.Sublist"
begin

section \<open>Layout components\<close>

text \<open>
  The cell generators build a gdsfactory \<open>Component\<close>: a container of rectangle
  references, ports and a key-value \<open>info\<close> dictionary. The component is modelled as
  a record that is passed through the generator and returned updated. Python floats are
  modelled as exact rationals (type \<open>rat\<close>); decimal literals of the source are written
  as fractions, so \<open>1.54\<close> is \<open>154 / 100\<close>. IEEE rounding error is outside the model.
\<close>

type_synonym point = "rat \<times> rat"

record rect =
  r_layer :: string
  r_size :: point
  r_origin :: point
  r_centered :: bool

record port =
  p_name :: string
  p_center :: point
  p_width :: rat
  p_orientation :: int
  p_layer :: string
  p_type :: string

datatype info_value = Str string | Num rat | Pair int int

record component =
  refs :: "rect list"
  ports :: "port list"
  info :: "string \<rightharpoonup> info_value"

definition Component :: component where
  "Component = \<lparr>refs = [], ports = [], info = Map.empty\<rparr>"

text \<open>\<open>add_rect\<close> of capacitors.py: create a rectangle of the given size on the given
  layer, add a reference to it to the component and move the reference to \<open>origin\<close>.\<close>

definition add_rect :: "component \<Rightarrow> point \<Rightarrow> string \<Rightarrow> point \<Rightarrow> bool \<Rightarrow> component" where
  "add_rect c sz layer origin centered =
     c\<lparr>refs := refs c @ [\<lparr>r_layer = layer, r_size = sz, r_origin = origin, r_centered = centered\<rparr>]\<rparr>"

definition add_port :: "component \<Rightarrow> port \<Rightarrow> component" where
  "add_port c p = c\<lparr>ports := ports c @ [p]\<rparr>"

text \<open>\<open>c.info.update(d)\<close>: the entries of \<open>d\<close> override those of \<open>c.info\<close>.\<close>

definition info_update :: "component \<Rightarrow> (string \<times> info_value) list \<Rightarrow> component" where
  "info_update c kvs = c\<lparr>info := info c ++ map_of kvs\<rparr>"

subsection \<open>Python numerics\<close>

text \<open>Python 3 \<open>round\<close> of a float to an integer rounds half to even.\<close>

definition py_round :: "rat \<Rightarrow> int" where
  "py_round x =
     (let f = \<lfloor>x\<rfloor>; d = x - of_int f
      in if d < 1 / 2 then f
         else if 1 / 2 < d then f + 1
         else if even f then f else f + 1)"

text \<open>\<open>range(n)\<close> for an integer \<open>n\<close>: empty when \<open>n \<le> 0\<close>.\<close>

definition range_py :: "int \<Rightarrow> int list" where
  "range_py n = [0..n - 1]"

section \<open>capacitors.py\<close>

record cmim_args =
  width :: rat
  length_um :: rat
  capacitance :: "rat option"
  model :: string
  layer_metal5 :: string
  layer_mim :: string
  layer_topmetal1 :: string
  layer_vmim :: string

definition cmim_defaults :: cmim_args where
  "cmim_defaults =
     \<lparr>width = 699 / 100, length_um = 699 / 100, capacitance = None, model = ''cmim'',
      layer_metal5 = ''Metal5drawing'', layer_mim = ''MIMdrawing'',
      layer_topmetal1 = ''TopMetal1drawing'', layer_vmim = ''Vmimdrawing''\<rparr>"

text \<open>
  The numbers of Vmim tiles are floors of a quotient. The quotient of the model is exact;
  that of the source is a double, which for a width that is a multiple of 1.26 (79.38,
  154.98, 158.76) falls just below the integer, so that the source places one column fewer
  than the model. The statements below are about the three plates, the ports and the
  capacitance; none of them depends on the tile counts.
\<close>

definition cmim :: "cmim_args \<Rightarrow> component" where
  "cmim a =
    (let c = Component;
         METAL_5_MIM_MARGIN = 6 / 10;
         METAL_1_MIM_MARGIN = 34 / 100;
         metal_1_mim_margin_x = - (4 / 1000) * width a + 625 / 1000;
         VMIM_TILE_LENGTH = 42 / 100;
         VMIM_TILE_GAP = 84 / 100;
         GRID_STEP = 5 / 1000;
         length' = of_int (py_round (length_um a / GRID_STEP)) * GRID_STEP;
         width' = of_int (py_round (width a / GRID_STEP)) * GRID_STEP;
         capacitance' =
           (case capacitance a of
              None \<Rightarrow> (let CAP_DENSITY = 154 / 100; area = width' * length' in area * CAP_DENSITY)
            | Some cap \<Rightarrow> cap);
         c = add_rect c (width', length') (layer_mim a) (0, 0) False;
         metal_5_size_x = width' + 2 * METAL_5_MIM_MARGIN;
         metal_5_size_y = length' + 2 * METAL_5_MIM_MARGIN;
         c = add_rect c (metal_5_size_x, metal_5_size_y) (layer_metal5 a)
               (- METAL_5_MIM_MARGIN, - METAL_5_MIM_MARGIN) False;
         metal_1_size_x = width' - 2 * metal_1_mim_margin_x;
         metal_1_size_y = length' - 2 * METAL_1_MIM_MARGIN;
         c = add_rect c (metal_1_size_x, metal_1_size_y) (layer_topmetal1 a)
               (metal_1_mim_margin_x, METAL_1_MIM_MARGIN) False;
         metal_1_vmim_margin = VMIM_TILE_LENGTH;
         tile_pitch = VMIM_TILE_LENGTH + VMIM_TILE_GAP;
         usable_x = width' - 2 * metal_1_vmim_margin;
         usable_y = length' - 2 * metal_1_vmim_margin;
         n_tiles_x = max \<lfloor>(usable_x + VMIM_TILE_GAP) / tile_pitch\<rfloor> 0;
         n_tiles_y = max \<lfloor>(usable_y + VMIM_TILE_GAP) / tile_pitch\<rfloor> 0;
         c = fold (\<lambda>ix c.
               fold (\<lambda>iy c.
                 (let x = METAL_1_MIM_MARGIN + metal_1_vmim_margin + of_int ix * tile_pitch;
                      y = METAL_1_MIM_MARGIN + metal_1_vmim_margin + of_int iy * tile_pitch
                  in add_rect c (VMIM_TILE_LENGTH, VMIM_TILE_LENGTH) (layer_vmim a) (x, y) False))
                 (range_py n_tiles_y) c)
               (range_py n_tiles_x) c;
         c = add_port c
               \<lparr>p_name = ''P1'',
                p_center = (- METAL_5_MIM_MARGIN + metal_5_size_x / 2,
                            - METAL_5_MIM_MARGIN + metal_5_size_y / 2),
                p_width = min metal_5_size_x metal_5_size_y,
                p_orientation = 180,
                p_layer = layer_metal5 a,
                p_type = ''electrical''\<rparr>;
         c = add_port c
               \<lparr>p_name = ''P2'',
                p_center = (METAL_1_MIM_MARGIN + metal_1_size_x / 2,
                            METAL_1_MIM_MARGIN + metal_1_size_y / 2),
                p_width = min metal_1_size_x metal_1_size_y,
                p_orientation = 0,
                p_layer = layer_topmetal1 a,
                p_type = ''electrical''\<rparr>;
         c = info_update c
               [(''model'', Str (model a)),
                (''capacitance'', Num capacitance'),
                (''mim_length'', Num length'),
                (''mim_width'', Num width'),
                (''vmim_tile_length'', Num VMIM_TILE_LENGTH),
                (''n_vmim_tiles'', Pair n_tiles_x n_tiles_y)]
     in c)"


record rfcmim_args =
  rf_width :: rat
  rf_length :: rat
  rf_capacitance :: "rat option"
  rf_model :: string
  rf_layer_activ :: string
  rf_layer_mim :: string
  rf_layer_metal1 :: string
  rf_layer_metal1_pin :: string
  rf_layer_metal5 :: string
  rf_layer_metal5_pin :: string
  rf_layer_topmetal1 :: string
  rf_layer_topmetal1_pin :: string
  rf_layer_vmim :: string
  rf_layer_cont :: string
  rf_layer_psd :: string
  rf_layer_pwellblock :: string
  rf_layers_no_qrc :: "string list"

definition rfcmim_defaults :: rfcmim_args where
  "rfcmim_defaults =
     \<lparr>rf_width = 7, rf_length = 7, rf_capacitance = None, rf_model = ''rfcmim'',
      rf_layer_activ = ''Activdrawing'', rf_layer_mim = ''MIMdrawing'',
      rf_layer_metal1 = ''Metal1drawing'', rf_layer_metal1_pin = ''Metal1pin'',
      rf_layer_metal5 = ''Metal5drawing'', rf_layer_metal5_pin = ''Metal5pin'',
      rf_layer_topmetal1 = ''TopMetal1drawing'', rf_layer_topmetal1_pin = ''TopMetal1pin'',
      rf_layer_vmim = ''Vmimdrawing'', rf_layer_cont = ''Contdrawing'',
      rf_layer_psd = ''pSDdrawing'', rf_layer_pwellblock = ''PWellblock'',
      rf_layers_no_qrc =
        [''Activnoqrc'', ''TopMetal1noqrc'', ''Metal1noqrc'', ''Metal2noqrc'',
         ''Metal3noqrc'', ''Metal4noqrc'', ''Metal5noqrc'']\<rparr>"

text \<open>\<open>rfcmim\<close> computes a capacitance as \<open>cmim\<close> does but stores no metadata and adds
  no port; every rectangle is given the size \<open>(length, width)\<close>.\<close>

definition rfcmim :: "rfcmim_args \<Rightarrow> component" where
  "rfcmim a =
    (let c = Component;
         MIM_METAL_5_MARGIN = 6 / 10;
         MIM_PWELL_MARGIN = 3;
         NO_QRC_PWELL_MARGIN = 26 / 10;
         length' = of_int (py_round (rf_length a / (5 / 1000))) * (5 / 1000);
         width' = of_int (py_round (rf_width a / (5 / 1000))) * (5 / 1000);
         capacitance' =
           (case rf_capacitance a of
              None \<Rightarrow> (let CAP_DENSITY = 154 / 100; area = width' * length' in area * CAP_DENSITY)
            | Some cap \<Rightarrow> cap);
         c = add_rect c (length', width') (rf_layer_mim a) (0, 0) False;
         p_well_length = 2 * MIM_PWELL_MARGIN + length';
         p_well_width = 2 * MIM_PWELL_MARGIN + width';
         p_well_corner = (- MIM_PWELL_MARGIN, - MIM_PWELL_MARGIN);
         c = add_rect c (p_well_length, p_well_width) (rf_layer_pwellblock a) p_well_corner False;
         no_qrc_length = 2 * (MIM_PWELL_MARGIN + NO_QRC_PWELL_MARGIN) + length';
         no_qrc_width = 2 * (MIM_PWELL_MARGIN + NO_QRC_PWELL_MARGIN) + width';
         no_qrc_corner = (- MIM_PWELL_MARGIN - NO_QRC_PWELL_MARGIN,
                          - MIM_PWELL_MARGIN - NO_QRC_PWELL_MARGIN);
         c = fold (\<lambda>layer c. add_rect c (no_qrc_length, no_qrc_width) layer no_qrc_corner False)
               (rf_layers_no_qrc a) c;
         metal_5_length = 2 * MIM_METAL_5_MARGIN + length';
         metal_5_width = 2 * MIM_METAL_5_MARGIN + width';
         metal_5_corner = (- MIM_METAL_5_MARGIN, - MIM_METAL_5_MARGIN);
         c = add_rect c (metal_5_length, metal_5_width) (rf_layer_metal5 a) metal_5_corner False
     in c)"

section \<open>bjt\_transistors.py\<close>

record npn13G2_args =
  STI :: rat
  baspolyx :: rat
  bipwinx :: rat
  bipwiny :: rat
  empolyx :: rat
  empolyy :: rat
  emitter_length :: rat
  emitter_width :: rat
  Nx :: int
  Ny :: int
  text_label :: string
  CMetY1 :: rat
  CMetY2 :: rat
  extra_argument_for_naming :: "string option"

definition npn13G2_defaults :: npn13G2_args where
  "npn13G2_defaults =
     \<lparr>STI = 44 / 100, baspolyx = 3 / 10, bipwinx = 7 / 100, bipwiny = 1 / 10,
      empolyx = 15 / 100, empolyy = 18 / 100, emitter_length = 9 / 10, emitter_width = 7 / 10,
      Nx = 1, Ny = 1, text_label = ''npn13G2'', CMetY1 = 0, CMetY2 = 0,
      extra_argument_for_naming = None\<rparr>"

text \<open>\<open>Nx\<close> is an integer, so \<open>int(math.floor(Nx))\<close> is \<open>Nx\<close> itself, and
  \<open>int(math.floor(pcRepeatY))\<close> is 4. Each pass of the inner loop adds two rectangles:
  \<open>c.add_ref(gf.components.rectangle(size, layer)).move((left, bottom))\<close>.\<close>

definition npn13G2 :: "npn13G2_args \<Rightarrow> component" where
  "npn13G2 a =
    (let c = Component;
         layer_via1 = ''Via1drawing'';
         stepX = 185 / 100;
         bipwinyoffset = (2 * (bipwiny a - 1 / 10) - 0) / 2;
         empolyyoffset = (2 * (empolyy a - 18 / 100)) / 2;
         leoffset = 0;
         pcStepY = 41 / 100;
         yOffset = 20 / 100;
         pcRepeatY = 4;
         c = fold (\<lambda>pcIndexX c.
               fold (\<lambda>pcIndexY c.
                 (let via1_size = 19 / 100;
                      left = (stepX * of_int pcIndexX) - 3 / 10;
                      bottom = - ((- (3 / 10) - yOffset - leoffset - bipwinyoffset - empolyyoffset)
                                  + (of_int pcIndexY * pcStepY))
                               + 2 / 10 - via1_size;
                      c = add_rect c (via1_size, via1_size) layer_via1 (left, bottom) False;
                      left = (stepX * of_int pcIndexX) + 11 / 100;
                      c = add_rect c (via1_size, via1_size) layer_via1 (left, bottom) False
                  in c))
                 (range_py pcRepeatY) c)
               (range_py (Nx a)) c
     in c)"

section \<open>Closed forms used in the statements\<close>

text \<open>The grid-snapped value of a dimension: \<open>round(x / 0.005) * 0.005\<close>.\<close>

definition grid_snap :: "rat \<Rightarrow> rat" where
  "grid_snap x = of_int (py_round (x / (5 / 1000))) * (5 / 1000)"

text \<open>Centre of a placed rectangle: a rectangle that is not centred spans from its origin
  to origin plus size.\<close>

definition rect_center :: "rect \<Rightarrow> point" where
  "rect_center r =
     (if r_centered r then r_origin r
      else (fst (r_origin r) + fst (r_size r) / 2, snd (r_origin r) + snd (r_size r) / 2))"

text \<open>The Vmim tile of column \<open>ix\<close> and row \<open>iy\<close>, and the grid of \<open>nx\<close> columns by
  \<open>ny\<close> rows in the order the nested loop places them.\<close>

definition vmim_tile :: "string \<Rightarrow> int \<Rightarrow> int \<Rightarrow> rect" where
  "vmim_tile l ix iy =
     \<lparr>r_layer = l, r_size = (42 / 100, 42 / 100),
      r_origin = (76 / 100 + of_int ix * (126 / 100), 76 / 100 + of_int iy * (126 / 100)),
      r_centered = False\<rparr>"

definition vmim_tiles :: "string \<Rightarrow> int \<Rightarrow> int \<Rightarrow> rect list" where
  "vmim_tiles l nx ny = concat (map (\<lambda>ix. map (\<lambda>iy. vmim_tile l ix iy) (range_py ny)) (range_py nx))"

text \<open>The number of tiles along a side of snapped dimension \<open>w\<close>, in exact arithmetic.\<close>

definition tiles_per_side :: "rat \<Rightarrow> int" where
  "tiles_per_side w = \<lfloor>grid_snap w / (126 / 100)\<rfloor>"

definition rfcmim_7_by_4 :: rfcmim_args where
  "rfcmim_7_by_4 = rfcmim_defaults\<lparr>rf_width := 7, rf_length := 4\<rparr>"

text \<open>The via of \<open>npn13G2\<close> in column \<open>ix\<close> and row \<open>iy\<close>, at x-offset \<open>dx\<close> (-0.3 for the
  left via, 0.11 for the right one), and the list of all vias in placement order.\<close>

definition npn13G2_via :: "npn13G2_args \<Rightarrow> rat \<Rightarrow> int \<Rightarrow> int \<Rightarrow> rect" where
  "npn13G2_via a dx ix iy =
     \<lparr>r_layer = ''Via1drawing'', r_size = (19 / 100, 19 / 100),
      r_origin = (185 / 100 * of_int ix + dx,
                  51 / 100 + (bipwiny a - 1 / 10) + (empolyy a - 18 / 100) - of_int iy * (41 / 100)),
      r_centered = False\<rparr>"

definition npn13G2_vias :: "npn13G2_args \<Rightarrow> rect list" where
  "npn13G2_vias a =
     concat (map (\<lambda>ix. concat (map (\<lambda>iy. [npn13G2_via a (- (3 / 10)) ix iy, npn13G2_via a (11 / 100) ix iy])
       [0, 1, 2, 3])) (range_py (Nx a)))"

section \<open>sim\_utils.py\<close>

subsection \<open>File system\<close>

text \<open>
  The utilities act on the file system through \<open>pathlib\<close> and \<open>zipfile\<close>. The file
  system is modelled as a tree: a node is a regular file with its content or a directory
  with named children; symbolic links and permissions are not modelled. A path is the list
  of names from the root, so \<open>input_dir\<close> and the working directory are given as absolute,
  normalised paths. The content of a file is raw bytes or a zip archive, an archive being the
  list of its entries (archive name and content).
\<close>

type_synonym path = "string list"

datatype data = Raw string | Archive "(path \<times> data) list"

datatype node = File data | Dir "(string \<times> node) list"

text \<open>Exceptions are values: the \<open>OSError\<close>s raised by the file operations, the
  \<open>ValueError\<close> of \<open>relative_to\<close>, and \<open>LibraryError\<close> for any other exception raised
  inside an external library.\<close>

datatype error =
  FileNotFoundError | NotADirectoryError | IsADirectoryError | ValueError | LibraryError string

text \<open>The node at a path, if there is one.\<close>

fun lookup :: "node \<Rightarrow> path \<Rightarrow> node option" where
  "lookup n [] = Some n"
| "lookup n (x # xs) =
     (case n of
        File _ \<Rightarrow> None
      | Dir kids \<Rightarrow> (case map_of kids x of None \<Rightarrow> None | Some k \<Rightarrow> lookup k xs))"

text \<open>Opening a path for writing (\<open>open(path, "w+b")\<close>, as \<open>zipfile.ZipFile(path, "w")\<close>
  does) creates the file in an existing directory or replaces the content of an existing
  regular file; it fails on a directory and under a missing directory.\<close>

fun write_file :: "node \<Rightarrow> path \<Rightarrow> data \<Rightarrow> error + node" where
  "write_file n [] d = (case n of File _ \<Rightarrow> Inr (File d) | Dir _ \<Rightarrow> Inl IsADirectoryError)"
| "write_file n (x # xs) d =
     (case n of
        File _ \<Rightarrow> Inl NotADirectoryError
      | Dir kids \<Rightarrow>
          (case map_of kids x of
             None \<Rightarrow>
               (if xs = [] then Inr (Dir (AList.update x (File d) kids)) else Inl FileNotFoundError)
           | Some k \<Rightarrow>
               (case write_file k xs d of
                  Inl e \<Rightarrow> Inl e
                | Inr k' \<Rightarrow> Inr (Dir (AList.update x k' kids)))))"

text \<open>\<open>Path.unlink()\<close> removes a regular file.\<close>

fun unlink :: "node \<Rightarrow> path \<Rightarrow> error + node" where
  "unlink n [] = Inl IsADirectoryError"
| "unlink n (x # xs) =
     (case n of
        File _ \<Rightarrow> Inl NotADirectoryError
      | Dir kids \<Rightarrow>
          (case map_of kids x of
             None \<Rightarrow> Inl FileNotFoundError
           | Some k \<Rightarrow>
               (if xs = [] then
                  (case k of
                     File _ \<Rightarrow> Inr (Dir (AList.delete x kids))
                   | Dir _ \<Rightarrow> Inl IsADirectoryError)
                else
                  (case unlink k xs of
                     Inl e \<Rightarrow> Inl e
                   | Inr k' \<Rightarrow> Inr (Dir (AList.update x k' kids))))))"

text \<open>\<open>Path.rglob("*")\<close> yields every path below a directory, files and directories alike,
  relative to it here. It lists the children of a directory before descending; the order
  among siblings is that of the directory listing. On a path that is not a directory it
  yields nothing.\<close>

fun rglob :: "node \<Rightarrow> path list" where
  "rglob (File _) = []"
| "rglob (Dir kids) =
     map (\<lambda>child. [fst child]) kids @
     concat (map (\<lambda>child. map ((#) (fst child)) (rglob (snd child))) kids)"

definition rglob_at :: "node \<Rightarrow> path \<Rightarrow> path list" where
  "rglob_at fs dir = (case lookup fs dir of Some (Dir kids) \<Rightarrow> rglob (Dir kids) | _ \<Rightarrow> [])"

subsection \<open>\<open>upload_simulation_dir\<close>\<close>

definition zip_name :: string where
  "zip_name = ''simulation_zipfile.zip''"

text \<open>The loop of \<open>upload_simulation_dir\<close>: every path found by \<open>rglob\<close> that is a regular
  file (\<open>file.is_file()\<close>) is written to the archive under its path relative to
  \<open>input_dir\<close>, with the content it has on disk.\<close>

definition zip_entries :: "node \<Rightarrow> path \<Rightarrow> (path \<times> data) list" where
  "zip_entries fs1 input_dir =
     List.map_filter
       (\<lambda>p. case lookup fs1 (input_dir @ p) of Some (File d) \<Rightarrow> Some (p, d) | _ \<Rightarrow> None)
       (rglob_at fs1 input_dir)"

text \<open>The \<open>with zipfile.ZipFile(zip_path, "w", ZIP_STORED)\<close> block: the archive file is
  created (empty) when the block is entered, before the directory is walked, and holds the
  entries when the block is left. The walk therefore sees the file system with the archive
  file in it. The bytes read from the archive file itself, should the walk meet it, are
  modelled as those of the empty file it was created as.\<close>

definition write_zip :: "node \<Rightarrow> path \<Rightarrow> path \<Rightarrow> error + ((path \<times> data) list \<times> node)" where
  "write_zip fs zip_path input_dir =
     (case write_file fs zip_path (Raw []) of
        Inl e \<Rightarrow> Inl e
      | Inr fs1 \<Rightarrow>
          (let entries = zip_entries fs1 input_dir
           in case write_file fs1 zip_path (Archive entries) of
                Inl e \<Rightarrow> Inl e
              | Inr fs2 \<Rightarrow> Inr (entries, fs2)))"

text \<open>\<open>sim.upload_simulation\<close> is an external call: it is a parameter that reads the file
  system at the archive path, may change the state \<open>'w\<close> of the outside world and
  returns a pre-job or an error. The archive is in the working directory \<open>cwd\<close>. There is
  no \<open>try\<close> in the source: the archive is unlinked only on the path where the upload
  returned. In this model of the file system the walk, the reads and the closing of the
  archive always succeed; the function over a library in which each of them can fail is
  \<open>upload_simulation_dir_lib\<close> below.\<close>

definition upload_simulation_dir ::
  "(node \<Rightarrow> path \<Rightarrow> 'j \<Rightarrow> 'w \<Rightarrow> (error + 'p) \<times> 'w) \<Rightarrow> path \<Rightarrow> path \<Rightarrow> 'j \<Rightarrow> node \<times> 'w \<Rightarrow>
     (error + 'p) \<times> node \<times> 'w" where
  "upload_simulation_dir upload_simulation cwd input_dir job_definition s =
     (case s of (fs, w) \<Rightarrow>
       (let zip_path = cwd @ [zip_name]
        in case write_zip fs zip_path input_dir of
             Inl e \<Rightarrow> (Inl e, fs, w)
           | Inr (entries, fs2) \<Rightarrow>
               (case upload_simulation fs2 zip_path job_definition w of
                  (Inl e, w') \<Rightarrow> (Inl e, fs2, w')
                | (Inr pre_job, w') \<Rightarrow>
                    (case unlink fs2 zip_path of
                       Inl e \<Rightarrow> (Inl e, fs2, w')
                     | Inr fs3 \<Rightarrow> (Inr pre_job, fs3, w')))))"

subsection \<open>Notions used in the statements\<close>

text \<open>In a well-formed tree the names in a directory are distinct. \<open>file_at\<close> is the
  content of the regular file at a path.\<close>

fun wf_node :: "node \<Rightarrow> bool" where
  "wf_node (File _) = True"
| "wf_node (Dir kids) = (distinct (map fst kids) \<and> (\<forall>k \<in> snd ` set kids. wf_node k))"

definition file_at :: "node \<Rightarrow> path \<Rightarrow> data option" where
  "file_at n p = (case lookup n p of Some (File d) \<Rightarrow> Some d | _ \<Rightarrow> None)"

text \<open>Example file systems: one with the input directory \<open>/w\<close> beside the working
  directory \<open>/other\<close> (and its state once the archive is written), one where the working
  directory is the input directory. Two example upload functions: one returns the content it
  finds at the archive path, one fails.\<close>

definition fs_example :: node where
  "fs_example =
     Dir [(''w'', Dir [(''a.txt'', File (Raw ''A'')),
                       (''sub'', Dir [(''b.txt'', File (Raw ''B'')), (''empty'', Dir [])])]),
          (''other'', Dir [(''c.txt'', File (Raw ''C''))])]"

definition entries_example :: "(path \<times> data) list" where
  "entries_example = [([''a.txt''], Raw ''A''), ([''sub'', ''b.txt''], Raw ''B'')]"

definition fs_example_zipped :: node where
  "fs_example_zipped =
     Dir [(''w'', Dir [(''a.txt'', File (Raw ''A'')),
                       (''sub'', Dir [(''b.txt'', File (Raw ''B'')), (''empty'', Dir [])])]),
          (''other'', Dir [(''c.txt'', File (Raw ''C'')),
                           (''simulation_zipfile.zip'', File (Archive entries_example))])]"

definition upload_echo :: "node \<Rightarrow> path \<Rightarrow> unit \<Rightarrow> nat \<Rightarrow> (error + data option) \<times> nat" where
  "upload_echo fs p j w = (Inr (file_at fs p), Suc w)"

definition upload_fails :: "node \<Rightarrow> path \<Rightarrow> unit \<Rightarrow> nat \<Rightarrow> (error + data option) \<times> nat" where
  "upload_fails fs p j w = (Inl (LibraryError ''connection refused''), Suc w)"

definition fs_cwd_example :: node where
  "fs_cwd_example = Dir [(''w'', Dir [(''a.txt'', File (Raw ''A''))])]"

subsection \<open>External library calls\<close>

text \<open>
  A call into an external library (\<open>print\<close>, \<open>meshio\<close>, \<open>pyvista\<close>, IPython) acts on
  the state \<open>'w\<close> of the outside world and returns a value or raises. Statements in
  sequence stop at the first exception, which is what \<open>and_then\<close> does. The source of
  sim\_utils.py contains no \<open>try\<close> statement, so no model below has a handler; its one
  \<open>with\<close> statement is modelled by \<open>with_exit\<close> further down.
\<close>

type_synonym ('w, 'a) lib_call = "'w \<Rightarrow> (error + 'a) \<times> 'w"

definition returns :: "'a \<Rightarrow> ('w, 'a) lib_call" where
  "returns x w = (Inr x, w)"

definition and_then :: "('w, 'a) lib_call \<Rightarrow> ('a \<Rightarrow> ('w, 'b) lib_call) \<Rightarrow> ('w, 'b) lib_call" where
  "and_then m f w = (case m w of (Inl e, w') \<Rightarrow> (Inl e, w') | (Inr x, w') \<Rightarrow> f x w')"

fun for_each :: "('a \<Rightarrow> ('w, unit) lib_call) \<Rightarrow> 'a list \<Rightarrow> ('w, unit) lib_call" where
  "for_each body [] = returns ()"
| "for_each body (x # xs) = and_then (body x) (\<lambda>_. for_each body xs)"

subsection \<open>\<open>print_job_summary\<close>\<close>

text \<open>
  The fields of the job object that the function reads. Timestamps are seconds; the
  difference of two is the \<open>total_seconds()\<close> of the \<open>timedelta\<close>. The rendering of
  numbers by f-strings (\<open>str\<close> of an integer, \<open>:.1f\<close>, \<open>:.2f\<close>) is a parameter.
  \<open>int()\<close> truncates towards zero; \<open>divmod\<close> and \<open>//\<close> round down, as \<open>div\<close> and
  \<open>mod\<close> do. The labels are padded to 12 characters by \<open>:<12\<close>.
\<close>

record job =
  job_name :: string
  status_value :: string
  exit_code :: int
  started_at :: "rat option"
  finished_at :: "rat option"
  requested_cpu :: int
  requested_memory_mb :: int
  output_size_bytes :: int
  download_urls :: "(string \<times> string) list option"





subsection \<open>\<open>plot_mesh_pv\<close>\<close>





subsection \<open>Observing the calls\<close>



definition all_ok :: "error option list \<Rightarrow> bool" where
  "all_ok tr = list_all (\<lambda>x. x = None) tr"

definition fail_stop :: "error + 'a \<Rightarrow> error option list \<Rightarrow> bool" where
  "fail_stop r tr =
     (case r of
        Inl e \<Rightarrow> tr \<noteq> [] \<and> last tr = Some e \<and> all_ok (butlast tr)
      | Inr _ \<Rightarrow> all_ok tr)"

definition stops_at_failure :: "('w \<times> error option list, 'a) lib_call \<Rightarrow> bool" where
  "stops_at_failure m =
     (\<forall>w tr r w' tr'. all_ok tr \<longrightarrow> m (w, tr) = (r, (w', tr')) \<longrightarrow> fail_stop r tr')"






subsection \<open>\<open>upload_simulation_dir\<close> over a library whose calls can fail\<close>


record ('w, 'zf, 'j, 'p) zip_lib =
  zip_open :: "path \<Rightarrow> ('w, 'zf) lib_call"
  rglob_all :: "path \<Rightarrow> ('w, path list) lib_call"
  is_file :: "path \<Rightarrow> ('w, bool) lib_call"
  relative_to :: "path \<Rightarrow> path \<Rightarrow> ('w, path) lib_call"
  zip_write :: "'zf \<Rightarrow> path \<Rightarrow> path \<Rightarrow> ('w, unit) lib_call"
  zip_close :: "'zf \<Rightarrow> ('w, unit) lib_call"
  upload_call :: "path \<Rightarrow> 'j \<Rightarrow> ('w, 'p) lib_call"
  unlink_call :: "path \<Rightarrow> ('w, unit) lib_call"

text \<open>The \<open>with\<close> statement: the exit call (\<open>ZipFile.__exit__\<close>, which closes the
  archive) runs when the block is left, also when the block raised. The exception of the
  block is then raised again, unless the exit call raises itself: then its exception is the
  one the caller gets.\<close>

definition with_exit :: "('w, 'a) lib_call \<Rightarrow> ('w, unit) lib_call \<Rightarrow> ('w, 'a) lib_call" where
  "with_exit body exit w =
     (case body w of
        (Inr x, w1) \<Rightarrow>
          (case exit w1 of (Inl e, w2) \<Rightarrow> (Inl e, w2) | (Inr _, w2) \<Rightarrow> (Inr x, w2))
      | (Inl e, w1) \<Rightarrow>
          (case exit w1 of (Inl e', w2) \<Rightarrow> (Inl e', w2) | (Inr _, w2) \<Rightarrow> (Inl e, w2)))"

text \<open>One pass of the loop, the \<open>with\<close> block and the whole function, statement by
  statement.\<close>

definition zip_one ::
  "('w, 'zf, 'j, 'p) zip_lib \<Rightarrow> 'zf \<Rightarrow> path \<Rightarrow> path \<Rightarrow> ('w, unit) lib_call" where
  "zip_one Z zf input_dir file =
     and_then (is_file Z file) (\<lambda>regular.
       if regular then
         and_then (relative_to Z file input_dir) (\<lambda>arcname. zip_write Z zf file arcname)
       else returns ())"

definition zip_files :: "('w, 'zf, 'j, 'p) zip_lib \<Rightarrow> 'zf \<Rightarrow> path \<Rightarrow> ('w, unit) lib_call" where
  "zip_files Z zf input_dir =
     and_then (rglob_all Z input_dir) (\<lambda>files. for_each (zip_one Z zf input_dir) files)"

definition upload_simulation_dir_lib ::
  "('w, 'zf, 'j, 'p) zip_lib \<Rightarrow> path \<Rightarrow> path \<Rightarrow> 'j \<Rightarrow> ('w, 'p) lib_call" where
  "upload_simulation_dir_lib Z zip_path input_dir job_definition =
     and_then (zip_open Z zip_path) (\<lambda>zf.
     and_then (with_exit (zip_files Z zf input_dir) (zip_close Z zf)) (\<lambda>_.
     and_then (upload_call Z zip_path job_definition) (\<lambda>pre_job.
     and_then (unlink_call Z zip_path) (\<lambda>_.
     returns pre_job))))"

text \<open>
  The file-system model above is this function run on the library below, whose state is the
  file system, the entries of the open archive and the outside world: in a tree without
  permissions or I/O errors the walk, the reads and the closing of the archive cannot fail
  (lemma \<open>upload_simulation_dir_is_instance\<close>).
\<close>

definition fs_zip_lib ::
  "(node \<Rightarrow> path \<Rightarrow> 'j \<Rightarrow> 'w \<Rightarrow> (error + 'p) \<times> 'w) \<Rightarrow>
     (node \<times> (path \<times> data) list \<times> 'w, path, 'j, 'p) zip_lib" where
  "fs_zip_lib upload_simulation =
     \<lparr>zip_open = (\<lambda>zp (fs, es, w).
        case write_file fs zp (Raw []) of
          Inl e \<Rightarrow> (Inl e, (fs, es, w))
        | Inr fs1 \<Rightarrow> (Inr zp, (fs1, [], w))),
      rglob_all = (\<lambda>dir (fs, es, w). (Inr (map ((@) dir) (rglob_at fs dir)), (fs, es, w))),
      is_file = (\<lambda>p (fs, es, w). (Inr (file_at fs p \<noteq> None), (fs, es, w))),
      relative_to = (\<lambda>p dir s.
        (if prefix dir p then Inr (drop (length dir) p) else Inl ValueError, s)),
      zip_write = (\<lambda>zf p arcname (fs, es, w).
        case file_at fs p of
          None \<Rightarrow> (Inl FileNotFoundError, (fs, es, w))
        | Some d \<Rightarrow> (Inr (), (fs, es @ [(arcname, d)], w))),
      zip_close = (\<lambda>zf (fs, es, w).
        case write_file fs zf (Archive es) of
          Inl e \<Rightarrow> (Inl e, (fs, es, w))
        | Inr fs2 \<Rightarrow> (Inr (), (fs2, es, w))),
      upload_call = (\<lambda>zp job (fs, es, w).
        case upload_simulation fs zp job w of (r, w') \<Rightarrow> (r, (fs, es, w'))),
      unlink_call = (\<lambda>zp (fs, es, w).
        case unlink fs zp of
          Inl e \<Rightarrow> (Inl e, (fs, es, w))
        | Inr fs3 \<Rightarrow> (Inr (), (fs3, es, w)))\<rparr>"

definition zip_entry :: "node \<Rightarrow> path \<Rightarrow> path \<Rightarrow> (path \<times> data) option" where
  "zip_entry fs dir p = (case lookup fs (dir @ p) of Some (File d) \<Rightarrow> Some (p, d) | _ \<Rightarrow> None)"










section \<open>Properties of the capacitor cells\<close>

lemma fold_add_rect:
  "fold (\<lambda>i c. add_rect c sz l (f i) b) xs c =
     c\<lparr>refs := refs c @ map (\<lambda>i. \<lparr>r_layer = l, r_size = sz, r_origin = f i, r_centered = b\<rparr>) xs\<rparr>"
  by (induction xs arbitrary: c) (simp_all add: add_rect_def)

lemma fold_add_rect_layers:
  "fold (\<lambda>l c. add_rect c sz l org b) xs c =
     c\<lparr>refs := refs c @ map (\<lambda>l. \<lparr>r_layer = l, r_size = sz, r_origin = org, r_centered = b\<rparr>) xs\<rparr>"
  by (induction xs arbitrary: c) (simp_all add: add_rect_def)

lemma fold_append_refs:
  "fold (\<lambda>i c. c\<lparr>refs := refs c @ g i\<rparr>) xs c = c\<lparr>refs := refs c @ concat (map g xs)\<rparr>"
  by (induction xs arbitrary: c) simp_all

lemma cmim_refs:
  "refs (cmim a) =
     [\<lparr>r_layer = layer_mim a, r_size = (grid_snap (width a), grid_snap (length_um a)),
       r_origin = (0, 0), r_centered = False\<rparr>,
      \<lparr>r_layer = layer_metal5 a,
       r_size = (grid_snap (width a) + 12 / 10, grid_snap (length_um a) + 12 / 10),
       r_origin = (- (6 / 10), - (6 / 10)), r_centered = False\<rparr>,
      \<lparr>r_layer = layer_topmetal1 a,
       r_size = (grid_snap (width a) - 2 * (- (4 / 1000) * width a + 625 / 1000),
                 grid_snap (length_um a) - 68 / 100),
       r_origin = (- (4 / 1000) * width a + 625 / 1000, 34 / 100), r_centered = False\<rparr>]
     @ vmim_tiles (layer_vmim a) (max (tiles_per_side (width a)) 0) (max (tiles_per_side (length_um a)) 0)"
  unfolding cmim_def Let_def fold_add_rect fold_append_refs
  by (simp add: add_rect_def add_port_def info_update_def Component_def grid_snap_def vmim_tiles_def
       vmim_tile_def tiles_per_side_def)

lemma cmim_info:
  "info (cmim a) =
     map_of [(''model'', Str (model a)),
       (''capacitance'', Num (case capacitance a of
            None \<Rightarrow> grid_snap (width a) * grid_snap (length_um a) * (154 / 100) | Some cap \<Rightarrow> cap)),
       (''mim_length'', Num (grid_snap (length_um a))),
       (''mim_width'', Num (grid_snap (width a))),
       (''vmim_tile_length'', Num (42 / 100)),
       (''n_vmim_tiles'', Pair (max (tiles_per_side (width a)) 0) (max (tiles_per_side (length_um a)) 0))]"
  unfolding cmim_def Let_def fold_add_rect fold_append_refs
  by (cases "capacitance a")
     (simp_all add: add_rect_def add_port_def info_update_def Component_def grid_snap_def tiles_per_side_def)

lemma cmim_ports:
  "ports (cmim a) =
     [\<lparr>p_name = ''P1'',
       p_center = (- (6 / 10) + (grid_snap (width a) + 12 / 10) / 2,
                   - (6 / 10) + (grid_snap (length_um a) + 12 / 10) / 2),
       p_width = min (grid_snap (width a) + 12 / 10) (grid_snap (length_um a) + 12 / 10),
       p_orientation = 180, p_layer = layer_metal5 a, p_type = ''electrical''\<rparr>,
      \<lparr>p_name = ''P2'',
       p_center = (34 / 100 + (grid_snap (width a) - 2 * (- (4 / 1000) * width a + 625 / 1000)) / 2,
                   34 / 100 + (grid_snap (length_um a) - 68 / 100) / 2),
       p_width = min (grid_snap (width a) - 2 * (- (4 / 1000) * width a + 625 / 1000))
                     (grid_snap (length_um a) - 68 / 100),
       p_orientation = 0, p_layer = layer_topmetal1 a, p_type = ''electrical''\<rparr>]"
  unfolding cmim_def Let_def fold_add_rect fold_append_refs
  by (simp add: add_rect_def add_port_def info_update_def Component_def grid_snap_def)

lemma rfcmim_refs:
  "refs (rfcmim a) =
     [\<lparr>r_layer = rf_layer_mim a, r_size = (grid_snap (rf_length a), grid_snap (rf_width a)),
       r_origin = (0, 0), r_centered = False\<rparr>,
      \<lparr>r_layer = rf_layer_pwellblock a,
       r_size = (6 + grid_snap (rf_length a), 6 + grid_snap (rf_width a)),
       r_origin = (- 3, - 3), r_centered = False\<rparr>]
     @ map (\<lambda>l. \<lparr>r_layer = l,
                 r_size = (112 / 10 + grid_snap (rf_length a), 112 / 10 + grid_snap (rf_width a)),
                 r_origin = (- (56 / 10), - (56 / 10)), r_centered = False\<rparr>) (rf_layers_no_qrc a)
     @ [\<lparr>r_layer = rf_layer_metal5 a,
         r_size = (grid_snap (rf_length a) + 12 / 10, grid_snap (rf_width a) + 12 / 10),
         r_origin = (- (6 / 10), - (6 / 10)), r_centered = False\<rparr>]"
  unfolding rfcmim_def Let_def fold_add_rect_layers
  by (simp add: add_rect_def Component_def grid_snap_def)

lemma grid_snap_699: "grid_snap (699 / 100) = 699 / 100"
  by code_simp

lemma grid_snap_7: "grid_snap 7 = 7"
  by code_simp

lemma grid_snap_4: "grid_snap 4 = 4"
  by code_simp

text \<open>
  Claim C1. When \<open>cmim\<close> is called with \<open>capacitance=None\<close>, the value stored under
  \<open>'capacitance'\<close> in the metadata is the area of the MIM plate (grid-snapped width times
  grid-snapped length, the size of the MIM rectangle) multiplied by the density 1.54.
\<close>
theorem cmim_capacitance_is_area_times_density:
  "capacitance a = None \<Longrightarrow>
     r_size (refs (cmim a) ! 0) = (grid_snap (width a), grid_snap (length_um a)) \<and>
     info (cmim a) ''capacitance'' =
       Some (Num (grid_snap (width a) * grid_snap (length_um a) * (154 / 100)))"
  by (simp add: cmim_refs cmim_info)

theorem cmim_capacitance_is_area_times_density_witness:
  "capacitance cmim_defaults = None \<and>
   r_size (refs (cmim cmim_defaults) ! 0) = (699 / 100, 699 / 100) \<and>
   info (cmim cmim_defaults) ''capacitance'' = Some (Num (37622277 / 500000))"
  using cmim_capacitance_is_area_times_density [of cmim_defaults]
  by (simp add: cmim_defaults_def grid_snap_699)

text \<open>
  Claim C3, evaluated at the default arguments (width = length = 6.99). The TopMetal1
  rectangle is placed at x-origin \<open>metal_1_mim_margin_x = -0.004 * width + 0.625\<close>, but the
  x-coordinate of port P2 is computed from \<open>METAL_1_MIM_MARGIN = 0.34\<close>: the port lies at
  x = 3.23796 while the centre of the plate is at x = 3.495.
\<close>
theorem cmim_P2_off_plate_center:
  "p_name (ports (cmim cmim_defaults) ! 1) = ''P2'' \<and>
   r_layer (refs (cmim cmim_defaults) ! 2) = ''TopMetal1drawing'' \<and>
   p_center (ports (cmim cmim_defaults) ! 1) = (80949 / 25000, 699 / 200) \<and>
   rect_center (refs (cmim cmim_defaults) ! 2) = (699 / 200, 699 / 200)"
  by (simp add: cmim_ports cmim_refs rect_center_def cmim_defaults_def grid_snap_699)

text \<open>Port P1 is at the centre of the Metal5 rectangle for all arguments; port P2 is displaced
  in x by \<open>0.34 - metal_1_mim_margin_x\<close> from the centre of the TopMetal1 rectangle.\<close>

lemma cmim_P1_at_plate_center:
  "p_name (ports (cmim a) ! 0) = ''P1'' \<and> r_layer (refs (cmim a) ! 1) = layer_metal5 a \<and>
   p_center (ports (cmim a) ! 0) = rect_center (refs (cmim a) ! 1)"
  by (simp add: cmim_ports cmim_refs rect_center_def)

lemma cmim_P2_center_offset:
  "p_center (ports (cmim a) ! 1) =
     (fst (rect_center (refs (cmim a) ! 2)) + (34 / 100 - (- (4 / 1000) * width a + 625 / 1000)),
      snd (rect_center (refs (cmim a) ! 2)))"
  by (simp add: cmim_ports cmim_refs rect_center_def)

text \<open>
  Claim C4 at \<open>rfcmim(width=7, length=4)\<close>: the MIM rectangle has X-size 4 (the length)
  and the Metal5 rectangle X-size 5.2, not 7 and 8.2.
\<close>

theorem rfcmim_sizes_swapped_counterexample:
  "r_layer (refs (rfcmim rfcmim_7_by_4) ! 0) = ''MIMdrawing'' \<and>
   fst (r_size (refs (rfcmim rfcmim_7_by_4) ! 0)) \<noteq> grid_snap (rf_width rfcmim_7_by_4) \<and>
   r_layer (last (refs (rfcmim rfcmim_7_by_4))) = ''Metal5drawing'' \<and>
   fst (r_size (last (refs (rfcmim rfcmim_7_by_4)))) \<noteq> grid_snap (rf_width rfcmim_7_by_4) + 12 / 10"
  by (simp add: rfcmim_refs rfcmim_7_by_4_def rfcmim_defaults_def grid_snap_7 grid_snap_4)

text \<open>
  Claim C4 as amended. In \<open>cmim\<close> the MIM rectangle has size (width, length) and the
  Metal5 rectangle size (width + 1.2, length + 1.2), placed at (-0.6, -0.6); in \<open>rfcmim\<close>
  the two axes are exchanged: the MIM rectangle has size (length, width) and the Metal5
  rectangle size (length + 1.2, width + 1.2). Width and length are the grid-snapped values.
\<close>

theorem plate_sizes:
  "refs (cmim a) ! 0 =
     \<lparr>r_layer = layer_mim a, r_size = (grid_snap (width a), grid_snap (length_um a)),
      r_origin = (0, 0), r_centered = False\<rparr> \<and>
   refs (cmim a) ! 1 =
     \<lparr>r_layer = layer_metal5 a,
      r_size = (grid_snap (width a) + 12 / 10, grid_snap (length_um a) + 12 / 10),
      r_origin = (- (6 / 10), - (6 / 10)), r_centered = False\<rparr> \<and>
   refs (rfcmim b) ! 0 =
     \<lparr>r_layer = rf_layer_mim b, r_size = (grid_snap (rf_length b), grid_snap (rf_width b)),
      r_origin = (0, 0), r_centered = False\<rparr> \<and>
   last (refs (rfcmim b)) =
     \<lparr>r_layer = rf_layer_metal5 b,
      r_size = (grid_snap (rf_length b) + 12 / 10, grid_snap (rf_width b) + 12 / 10),
      r_origin = (- (6 / 10), - (6 / 10)), r_centered = False\<rparr>"
  by (simp add: cmim_refs rfcmim_refs)

section \<open>Properties of the transistor cell\<close>

lemma length_range_py: "length (range_py n) = nat n"
  by (simp add: range_py_def)

lemma length_concat_map_const:
  "(\<And>x. length (f x) = k) \<Longrightarrow> length (concat (map f xs)) = length xs * k"
  by (induction xs) simp_all

lemma fold_via_pair:
  "fold (\<lambda>i c. add_rect (add_rect c sz l (f i) b) sz l (g i) b) xs c =
     c\<lparr>refs := refs c @ concat (map (\<lambda>i.
        [\<lparr>r_layer = l, r_size = sz, r_origin = f i, r_centered = b\<rparr>,
         \<lparr>r_layer = l, r_size = sz, r_origin = g i, r_centered = b\<rparr>]) xs)\<rparr>"
  by (induction xs arbitrary: c) (simp_all add: add_rect_def)

lemma range_py_4: "range_py 4 = [0, 1, 2, 3]"
  by code_simp

lemma npn13G2_bottom:
  "- ((- (3 / 10) - 20 / 100 - 0 - (2 * (bw - 1 / 10) - 0) / 2 - (2 * (ep - 18 / 100)) / 2)
       + (y * (41 / 100))) + 2 / 10 - 19 / 100 =
   51 / 100 + (bw - 1 / 10) + (ep - 18 / 100) - y * (41 / 100)" for bw ep y :: rat
  by (simp add: diff_divide_distrib)

lemma npn13G2_left:
  "185 / 100 * x - 3 / 10 = 185 / 100 * x + - (3 / 10)" for x :: rat
  by simp

lemma npn13G2_eq:
  "npn13G2 a = \<lparr>refs = npn13G2_vias a, ports = [], info = Map.empty\<rparr>"
  unfolding npn13G2_def Let_def npn13G2_bottom npn13G2_left fold_via_pair fold_append_refs
    range_py_4 npn13G2_vias_def npn13G2_via_def Component_def
  by simp

lemma length_npn13G2_vias: "length (npn13G2_vias a) = nat (8 * Nx a)"
proof -
  have "length (npn13G2_vias a) = length (range_py (Nx a)) * 8"
    unfolding npn13G2_vias_def
    by (rule length_concat_map_const) simp
  then show ?thesis
    by (simp add: length_range_py)
qed

lemma npn13G2_via_layer_size:
  "r_layer (npn13G2_via a dx ix iy) = ''Via1drawing'' \<and>
   r_size (npn13G2_via a dx ix iy) = (19 / 100, 19 / 100)"
  by (simp add: npn13G2_via_def)

lemma npn13G2_vias_layer_size:
  assumes "r \<in> set (npn13G2_vias a)"
  shows "r_layer r = ''Via1drawing'' \<and> r_size r = (19 / 100, 19 / 100)"
proof -
  from assms obtain dx ix iy where "r = npn13G2_via a dx ix iy"
    unfolding npn13G2_vias_def set_concat set_map by auto
  then show ?thesis
    by (simp only: npn13G2_via_layer_size)
qed

lemma npn13G2_via_cong:
  "bipwiny b = bipwiny a \<Longrightarrow> empolyy b = empolyy a \<Longrightarrow> npn13G2_via b = npn13G2_via a"
  by (simp add: npn13G2_via_def fun_eq_iff)

lemma npn13G2_vias_cong:
  assumes "Nx b = Nx a" and "bipwiny b = bipwiny a" and "empolyy b = empolyy a"
  shows "npn13G2_vias b = npn13G2_vias a"
  unfolding npn13G2_vias_def npn13G2_via_cong [OF assms(2) assms(3)] assms(1) ..

text \<open>
  Claim C9. For \<open>Nx \<ge> 1\<close> the component returned by \<open>npn13G2\<close> consists of exactly
  \<open>8 * Nx\<close> rectangles and nothing else (no port, no metadata): two vias per column
  step at each of the four row indices, each a 0.19 x 0.19 square on the Via1 layer. The
  component is determined by \<open>Nx\<close>, \<open>bipwiny\<close> and \<open>empolyy\<close>: arguments that agree on
  these three give the same component, whatever the other parameters are.
\<close>

theorem npn13G2_vias_only:
  assumes "1 \<le> Nx a"
  shows "npn13G2 a = \<lparr>refs = npn13G2_vias a, ports = [], info = Map.empty\<rparr> \<and>
         length (refs (npn13G2 a)) = nat (8 * Nx a) \<and>
         (\<forall>r \<in> set (refs (npn13G2 a)).
            r_layer r = ''Via1drawing'' \<and> r_size r = (19 / 100, 19 / 100)) \<and>
         (\<forall>b. Nx b = Nx a \<and> bipwiny b = bipwiny a \<and> empolyy b = empolyy a \<longrightarrow>
              npn13G2 b = npn13G2 a)"
proof -
  have e: "npn13G2 a = \<lparr>refs = npn13G2_vias a, ports = [], info = Map.empty\<rparr>"
    by (rule npn13G2_eq)
  have l: "length (refs (npn13G2 a)) = nat (8 * Nx a)"
    by (simp add: npn13G2_eq length_npn13G2_vias)
  have s: "\<forall>r \<in> set (refs (npn13G2 a)).
      r_layer r = ''Via1drawing'' \<and> r_size r = (19 / 100, 19 / 100)"
    by (simp add: npn13G2_eq npn13G2_vias_layer_size)
  have d: "\<forall>b. Nx b = Nx a \<and> bipwiny b = bipwiny a \<and> empolyy b = empolyy a \<longrightarrow>
      npn13G2 b = npn13G2 a"
  proof (intro allI impI, elim conjE)
    fix b :: npn13G2_args
    assume "Nx b = Nx a" and "bipwiny b = bipwiny a" and "empolyy b = empolyy a"
    then have "npn13G2_vias b = npn13G2_vias a"
      by (rule npn13G2_vias_cong)
    then show "npn13G2 b = npn13G2 a"
      by (simp only: npn13G2_eq)
  qed
  from e l s d show ?thesis
    by (intro conjI)
qed

theorem npn13G2_vias_only_witness:
  "1 \<le> Nx npn13G2_defaults \<and> length (refs (npn13G2 npn13G2_defaults)) = 8 \<and>
   npn13G2 (npn13G2_defaults\<lparr>Ny := 3, emitter_length := 2, CMetY1 := 1\<rparr>) = npn13G2 npn13G2_defaults"
proof -
  have n: "1 \<le> Nx npn13G2_defaults"
    by (simp add: npn13G2_defaults_def)
  note g = npn13G2_vias_only [OF n]
  from g have "length (refs (npn13G2 npn13G2_defaults)) = nat (8 * Nx npn13G2_defaults)"
    by (elim conjE)
  then have len: "length (refs (npn13G2 npn13G2_defaults)) = 8"
    by (simp add: npn13G2_defaults_def)
  from g have "\<forall>b. Nx b = Nx npn13G2_defaults \<and> bipwiny b = bipwiny npn13G2_defaults \<and>
      empolyy b = empolyy npn13G2_defaults \<longrightarrow> npn13G2 b = npn13G2 npn13G2_defaults"
    by (elim conjE)
  then have "Nx (npn13G2_defaults\<lparr>Ny := 3, emitter_length := 2, CMetY1 := 1\<rparr>) =
        Nx npn13G2_defaults \<and>
      bipwiny (npn13G2_defaults\<lparr>Ny := 3, emitter_length := 2, CMetY1 := 1\<rparr>) =
        bipwiny npn13G2_defaults \<and>
      empolyy (npn13G2_defaults\<lparr>Ny := 3, emitter_length := 2, CMetY1 := 1\<rparr>) =
        empolyy npn13G2_defaults \<longrightarrow>
      npn13G2 (npn13G2_defaults\<lparr>Ny := 3, emitter_length := 2, CMetY1 := 1\<rparr>) =
        npn13G2 npn13G2_defaults"
    by (rule spec)
  then have "npn13G2 (npn13G2_defaults\<lparr>Ny := 3, emitter_length := 2, CMetY1 := 1\<rparr>) =
      npn13G2 npn13G2_defaults"
    by simp
  with n len show ?thesis
    by (intro conjI)
qed

section \<open>Properties of the simulation utilities\<close>

subsection \<open>Paths found by \<open>rglob\<close>\<close>

lemma lookup_append:
  "lookup n (p @ q) = (case lookup n p of None \<Rightarrow> None | Some m \<Rightarrow> lookup m q)"
proof (induction p arbitrary: n)
  case Nil
  show ?case by simp
next
  case (Cons x xs)
  show ?case
    by (cases n) (simp_all add: Cons.IH split: option.split)
qed

lemma lookup_File_Cons: "lookup (File d) (x # xs) = None"
  by simp

lemma in_set_rglob_Dir:
  "p \<in> set (rglob (Dir kids)) \<longleftrightarrow>
     (\<exists>child \<in> set kids. p = [fst child] \<or> (\<exists>q \<in> set (rglob (snd child)). p = fst child # q))"
  by (simp add: image_iff Bex_def) blast

lemma Cons_in_set_rglob_Dir:
  "x # xs \<in> set (rglob (Dir kids)) \<longleftrightarrow>
     (\<exists>k. (x, k) \<in> set kids \<and> (xs = [] \<or> xs \<in> set (rglob k)))"
proof -
  have "x # xs \<in> set (rglob (Dir kids)) \<longleftrightarrow>
      (\<exists>child \<in> set kids. x = fst child \<and> (xs = [] \<or> xs \<in> set (rglob (snd child))))"
    unfolding in_set_rglob_Dir by blast
  also have "\<dots> \<longleftrightarrow> (\<exists>k. (x, k) \<in> set kids \<and> (xs = [] \<or> xs \<in> set (rglob k)))"
    by (metis fst_conv snd_conv prod.collapse)
  finally show ?thesis .
qed

lemma in_set_rglob:
  "wf_node n \<Longrightarrow> p \<in> set (rglob n) \<longleftrightarrow> p \<noteq> [] \<and> lookup n p \<noteq> None"
proof (induction p arbitrary: n)
  case Nil
  show ?case
    by (cases n) (simp_all add: in_set_rglob_Dir del: rglob.simps(2))
next
  case (Cons x xs)
  show ?case
  proof (cases n)
    case (File d)
    then show ?thesis by simp
  next
    case (Dir kids)
    with Cons.prems have dist: "distinct (map fst kids)"
      and wf: "\<And>name k. (name, k) \<in> set kids \<Longrightarrow> wf_node k"
      by force+
    have "x # xs \<in> set (rglob (Dir kids)) \<longleftrightarrow>
        (\<exists>k. (x, k) \<in> set kids \<and> (xs = [] \<or> xs \<in> set (rglob k)))"
      by (rule Cons_in_set_rglob_Dir)
    also have "\<dots> \<longleftrightarrow> (\<exists>k. (x, k) \<in> set kids \<and> lookup k xs \<noteq> None)"
      using Cons.IH wf by (cases xs) auto
    also have "\<dots> \<longleftrightarrow> (\<exists>k. map_of kids x = Some k \<and> lookup k xs \<noteq> None)"
      using dist by simp
    also have "\<dots> \<longleftrightarrow> lookup (Dir kids) (x # xs) \<noteq> None"
      by (auto split: option.split)
    finally show ?thesis
      by (simp add: Dir)
  qed
qed

subsection \<open>Effect of creating the archive file\<close>

lemma file_at_Nil: "file_at n [] = (case n of File d \<Rightarrow> Some d | Dir _ \<Rightarrow> None)"
  by (simp add: file_at_def split: node.split)

lemma file_at_Cons:
  "file_at n (x # xs) =
     (case n of File _ \<Rightarrow> None
      | Dir kids \<Rightarrow> (case map_of kids x of None \<Rightarrow> None | Some k \<Rightarrow> file_at k xs))"
  by (simp add: file_at_def split: node.split option.split)

lemma file_at_write_file:
  "write_file n zp d = Inr n' \<Longrightarrow>
     file_at n' q = (if q = zp then Some d else if prefix zp q then None else file_at n q)"
proof (induction zp arbitrary: n n' q)
  case Nil
  then obtain d0 where "n = File d0" and "n' = File d"
    by (cases n) auto
  then show ?case
    by (cases q) (simp_all add: file_at_Nil file_at_Cons)
next
  case (Cons x xs)
  from Cons.prems obtain kids where n: "n = Dir kids"
    by (cases n) auto
  show ?case
  proof (cases "map_of kids x")
    case None
    with Cons.prems n have xs: "xs = []" and n': "n' = Dir (AList.update x (File d) kids)"
      by (auto split: if_splits)
    show ?thesis
    proof (cases q)
      case Nil
      then show ?thesis by (simp add: n n' file_at_Nil)
    next
      case (Cons y ys)
      then show ?thesis
        using None by (cases ys) (simp_all add: n n' xs file_at_Nil file_at_Cons update_conv')
    qed
  next
    case (Some k)
    with Cons.prems n obtain k' where k': "write_file k xs d = Inr k'"
      and n': "n' = Dir (AList.update x k' kids)"
      by (auto split: sum.splits)
    show ?thesis
    proof (cases q)
      case Nil
      then show ?thesis by (simp add: n n' file_at_Nil)
    next
      case (Cons y ys)
      then show ?thesis
        by (simp add: n n' Some file_at_Cons update_conv' Cons.IH [OF k'])
    qed
  qed
qed

lemma set_update_subset: "set (AList.update k v al) \<subseteq> insert (k, v) (set al)"
  by (induction al) auto

lemma wf_write_file:
  "wf_node n \<Longrightarrow> write_file n zp d = Inr n' \<Longrightarrow> wf_node n'"
proof (induction zp arbitrary: n n')
  case Nil
  then show ?case by (cases n) auto
next
  case (Cons x xs)
  from Cons.prems obtain kids where n: "n = Dir kids"
    by (cases n) auto
  with Cons.prems have dist: "distinct (map fst kids)"
    and wf: "\<And>k. k \<in> snd ` set kids \<Longrightarrow> wf_node k"
    by auto
  have upd: "wf_node (Dir (AList.update x k' kids))" if k': "wf_node k'" for k'
  proof -
    have "set (AList.update x k' kids) \<subseteq> insert (x, k') (set kids)"
      by (rule set_update_subset)
    then have "snd ` set (AList.update x k' kids) \<subseteq> insert k' (snd ` set kids)"
      by force
    then have "\<forall>k \<in> snd ` set (AList.update x k' kids). wf_node k"
      using k' wf by blast
    moreover have "distinct (map fst (AList.update x k' kids))"
      using dist by (rule distinct_update)
    ultimately show ?thesis
      by simp
  qed
  show ?case
  proof (cases "map_of kids x")
    case None
    with Cons.prems n have "n' = Dir (AList.update x (File d) kids)"
      by (auto split: if_splits)
    then show ?thesis using upd [of "File d"] by simp
  next
    case (Some k)
    with Cons.prems n obtain k' where k': "write_file k xs d = Inr k'"
      and n': "n' = Dir (AList.update x k' kids)"
      by (auto split: sum.splits)
    from Some have "k \<in> snd ` set kids"
      by (metis map_of_SomeD snd_conv image_eqI)
    then have "wf_node k'"
      using Cons.IH [OF _ k'] wf by blast
    then show ?thesis using upd n' by simp
  qed
qed

lemma lookup_below_written:
  "write_file n zp d = Inr n' \<Longrightarrow> strict_prefix zp q \<Longrightarrow> lookup n q = None"
proof (induction zp arbitrary: n n' q)
  case Nil
  then obtain d0 where "n = File d0"
    by (cases n) auto
  with Nil.prems show ?case
    by (cases q) simp_all
next
  case (Cons x xs)
  from Cons.prems(1) obtain kids where n: "n = Dir kids"
    by (cases n) auto
  from Cons.prems(2) obtain ys where q: "q = x # ys" and ys: "strict_prefix xs ys"
    by (cases q) auto
  show ?case
  proof (cases "map_of kids x")
    case None
    then show ?thesis by (simp add: n q)
  next
    case (Some k)
    with Cons.prems(1) n obtain k' where "write_file k xs d = Inr k'"
      by (auto split: sum.splits)
    from Cons.IH [OF this ys] show ?thesis
      by (simp add: n q Some)
  qed
qed

subsection \<open>Entries of the archive\<close>

lemma wf_lookup: "wf_node n \<Longrightarrow> lookup n p = Some m \<Longrightarrow> wf_node m"
proof (induction p arbitrary: n)
  case Nil
  then show ?case by simp
next
  case (Cons x xs)
  from Cons.prems(2) obtain kids k where n: "n = Dir kids" and k: "map_of kids x = Some k"
    and m: "lookup k xs = Some m"
    by (cases n) (auto split: option.splits)
  from k have "k \<in> snd ` set kids"
    by (metis map_of_SomeD snd_conv image_eqI)
  with Cons.prems(1) n have "wf_node k"
    by auto
  then show ?case
    using m by (rule Cons.IH)
qed

lemma lookup_below_non_dir:
  assumes "\<And>kids. lookup n dir \<noteq> Some (Dir kids)" and "p \<noteq> []"
  shows "lookup n (dir @ p) = None"
proof (cases "lookup n dir")
  case None
  then show ?thesis by (simp add: lookup_append)
next
  case (Some m)
  with assms(1) obtain d where "m = File d"
    by (cases m) auto
  with Some assms(2) show ?thesis
    by (cases p) (simp_all add: lookup_append)
qed

lemma in_set_rglob_at:
  assumes "wf_node n"
  shows "p \<in> set (rglob_at n dir) \<longleftrightarrow> p \<noteq> [] \<and> lookup n (dir @ p) \<noteq> None"
proof (cases "\<exists>kids. lookup n dir = Some (Dir kids)")
  case True
  then obtain kids where d: "lookup n dir = Some (Dir kids)" ..
  with assms have "wf_node (Dir kids)"
    by (rule wf_lookup)
  then have "p \<in> set (rglob (Dir kids)) \<longleftrightarrow> p \<noteq> [] \<and> lookup (Dir kids) p \<noteq> None"
    by (rule in_set_rglob)
  then show ?thesis
    by (simp add: rglob_at_def d lookup_append)
next
  case False
  then have nd: "\<And>kids. lookup n dir \<noteq> Some (Dir kids)"
    by blast
  then have "rglob_at n dir = []"
    by (auto simp: rglob_at_def split: option.split node.split)
  moreover have "p \<noteq> [] \<longrightarrow> lookup n (dir @ p) = None"
    using nd by (blast intro: lookup_below_non_dir)
  ultimately show ?thesis
    by (cases "p = []") simp_all
qed

lemma in_set_map_filter:
  "y \<in> set (List.map_filter f xs) \<longleftrightarrow> (\<exists>x \<in> set xs. f x = Some y)"
  by (induction xs) (auto split: option.splits)

lemma set_zip_entries:
  assumes "wf_node n"
  shows "set (zip_entries n dir) = {(p, d). p \<noteq> [] \<and> file_at n (dir @ p) = Some d}"
proof -
  have "(p, d) \<in> set (zip_entries n dir) \<longleftrightarrow> p \<noteq> [] \<and> file_at n (dir @ p) = Some d" for p d
  proof -
    have "(p, d) \<in> set (zip_entries n dir) \<longleftrightarrow>
        p \<in> set (rglob_at n dir) \<and> lookup n (dir @ p) = Some (File d)"
    proof -
      have sel: "(case lookup n (dir @ x) of Some (File d') \<Rightarrow> Some (x, d') | _ \<Rightarrow> None) = Some (p, d)
          \<longleftrightarrow> x = p \<and> lookup n (dir @ p) = Some (File d)" for x
      proof (cases "lookup n (dir @ x)")
        case None
        then show ?thesis by auto
      next
        case (Some m)
        then show ?thesis by (cases m) auto
      qed
      show ?thesis
        unfolding zip_entries_def in_set_map_filter sel by blast
    qed
    also have "\<dots> \<longleftrightarrow> p \<noteq> [] \<and> lookup n (dir @ p) = Some (File d)"
      using in_set_rglob_at [OF assms] by auto
    also have "\<dots> \<longleftrightarrow> p \<noteq> [] \<and> file_at n (dir @ p) = Some d"
      by (auto simp: file_at_def split: option.splits node.splits)
    finally show ?thesis .
  qed
  then show ?thesis
    by auto
qed

lemma write_zip_Inr:
  assumes "write_zip fs zp dir = Inr (entries, fs2)"
  obtains fs1 where "write_file fs zp (Raw []) = Inr fs1"
    and "entries = zip_entries fs1 dir"
    and "write_file fs1 zp (Archive entries) = Inr fs2"
  using assms
  by (auto simp: write_zip_def zip_entries_def Let_def split: sum.splits)

lemma file_at_below_written:
  assumes "write_file n zp d = Inr n'" and "strict_prefix zp q"
  shows "file_at n q = None"
  using lookup_below_written [OF assms] by (simp add: file_at_def)

text \<open>When the archive file does not lie inside the input directory, the entries of the
  archive are exactly the regular files below \<open>input_dir\<close> in the file system the caller
  had, each under its relative path and with its content.\<close>

lemma archive_holds_input_files:
  assumes wf: "wf_node fs"
    and outside: "\<not> strict_prefix input_dir zip_path"
    and ok: "write_zip fs zip_path input_dir = Inr (entries, fs2)"
  shows "set entries = {(p, d). p \<noteq> [] \<and> file_at fs (input_dir @ p) = Some d}"
proof -
  from ok obtain fs1 where fs1: "write_file fs zip_path (Raw []) = Inr fs1"
    and entries: "entries = zip_entries fs1 input_dir"
    by (rule write_zip_Inr)
  from wf fs1 have "wf_node fs1"
    by (rule wf_write_file)
  then have e: "set entries = {(p, d). p \<noteq> [] \<and> file_at fs1 (input_dir @ p) = Some d}"
    unfolding entries by (rule set_zip_entries)
  have same: "file_at fs1 (input_dir @ p) = file_at fs (input_dir @ p)" if "p \<noteq> []" for p
  proof -
    from that outside have ne: "input_dir @ p \<noteq> zip_path"
      by (auto simp: strict_prefix_def)
    show ?thesis
    proof (cases "prefix zip_path (input_dir @ p)")
      case True
      with ne have "strict_prefix zip_path (input_dir @ p)"
        by (simp add: strict_prefix_def)
      with fs1 have "file_at fs (input_dir @ p) = None"
        by (rule file_at_below_written)
      then show ?thesis
        using True ne by (simp add: file_at_write_file [OF fs1])
    next
      case False
      with ne show ?thesis
        by (simp add: file_at_write_file [OF fs1])
    qed
  qed
  show ?thesis
    unfolding e using same by auto
qed

subsection \<open>Upload and removal of the archive\<close>

lemma lookup_written:
  assumes "write_file n zp d = Inr n'"
  shows "lookup n' zp = Some (File d)"
proof -
  have "file_at n' zp = Some d"
    by (simp add: file_at_write_file [OF assms])
  then show ?thesis
    by (auto simp: file_at_def split: option.splits node.splits)
qed

lemma unlink_file:
  "lookup n zp = Some (File d) \<Longrightarrow> zp \<noteq> [] \<Longrightarrow>
     \<exists>n'. unlink n zp = Inr n' \<and> lookup n' zp = None"
proof (induction zp arbitrary: n)
  case Nil
  then show ?case by simp
next
  case (Cons x xs)
  from Cons.prems(1) obtain kids k where n: "n = Dir kids" and k: "map_of kids x = Some k"
    and f: "lookup k xs = Some (File d)"
    by (cases n) (auto split: option.splits)
  show ?case
  proof (cases "xs = []")
    case True
    with f have "k = File d" by simp
    then show ?thesis
      by (simp add: n k True delete_conv')
  next
    case False
    with Cons.IH [OF f] obtain k' where "unlink k xs = Inr k'" and "lookup k' xs = None"
      by blast
    then show ?thesis
      using False by (simp add: n k update_conv')
  qed
qed

lemma upload_outcomes:
  assumes "write_zip fs (cwd @ [zip_name]) input_dir = Inr (entries, fs2)"
  shows "lookup fs2 (cwd @ [zip_name]) = Some (File (Archive entries)) \<and>
         (\<forall>e w'. upload_simulation fs2 (cwd @ [zip_name]) job_definition w = (Inl e, w') \<longrightarrow>
            upload_simulation_dir upload_simulation cwd input_dir job_definition (fs, w) =
              (Inl e, fs2, w')) \<and>
         (\<forall>pre_job w'. upload_simulation fs2 (cwd @ [zip_name]) job_definition w = (Inr pre_job, w') \<longrightarrow>
            (\<exists>fs3. upload_simulation_dir upload_simulation cwd input_dir job_definition (fs, w) =
                      (Inr pre_job, fs3, w') \<and>
                   unlink fs2 (cwd @ [zip_name]) = Inr fs3 \<and>
                   lookup fs3 (cwd @ [zip_name]) = None))"
proof -
  from assms obtain fs1 where "write_file fs1 (cwd @ [zip_name]) (Archive entries) = Inr fs2"
    by (rule write_zip_Inr)
  then have zip: "lookup fs2 (cwd @ [zip_name]) = Some (File (Archive entries))"
    by (rule lookup_written)
  then obtain fs3 where rm: "unlink fs2 (cwd @ [zip_name]) = Inr fs3"
    and gone: "lookup fs3 (cwd @ [zip_name]) = None"
    using unlink_file [of fs2 "cwd @ [zip_name]"] by auto
  have fail: "upload_simulation_dir upload_simulation cwd input_dir job_definition (fs, w) =
      (Inl e, fs2, w')"
    if "upload_simulation fs2 (cwd @ [zip_name]) job_definition w = (Inl e, w')" for e w'
    using that assms by (simp add: upload_simulation_dir_def)
  have succ: "upload_simulation_dir upload_simulation cwd input_dir job_definition (fs, w) =
      (Inr pre_job, fs3, w')"
    if "upload_simulation fs2 (cwd @ [zip_name]) job_definition w = (Inr pre_job, w')" for pre_job w'
    using that assms rm by (simp add: upload_simulation_dir_def)
  from zip rm gone fail succ show ?thesis
    by blast
qed

text \<open>
  Claim C10. Once the archive \<open>simulation_zipfile.zip\<close> has been written in the working
  directory: if the upload raises, \<open>upload_simulation_dir\<close> raises the same error and the
  archive is still on disk, with its entries; if the upload returns, the archive is
  unlinked and is no longer on disk when the pre-job is returned.
\<close>

theorem zip_deleted_only_after_successful_upload:
  assumes "write_zip fs (cwd @ [zip_name]) input_dir = Inr (entries, fs2)"
  shows "lookup fs2 (cwd @ [zip_name]) = Some (File (Archive entries)) \<and>
         (\<forall>e w'. upload_simulation fs2 (cwd @ [zip_name]) job_definition w = (Inl e, w') \<longrightarrow>
            upload_simulation_dir upload_simulation cwd input_dir job_definition (fs, w) =
              (Inl e, fs2, w')) \<and>
         (\<forall>pre_job w'. upload_simulation fs2 (cwd @ [zip_name]) job_definition w = (Inr pre_job, w') \<longrightarrow>
            (\<exists>fs3. upload_simulation_dir upload_simulation cwd input_dir job_definition (fs, w) =
                      (Inr pre_job, fs3, w') \<and>
                   unlink fs2 (cwd @ [zip_name]) = Inr fs3 \<and>
                   lookup fs3 (cwd @ [zip_name]) = None))"
  using assms by (rule upload_outcomes)

lemma write_zip_example:
  "write_zip fs_example ([''other''] @ [zip_name]) [''w''] = Inr (entries_example, fs_example_zipped)"
  by code_simp

theorem zip_deleted_only_after_successful_upload_witness:
  "write_zip fs_example ([''other''] @ [zip_name]) [''w''] = Inr (entries_example, fs_example_zipped) \<and>
   upload_simulation_dir upload_fails [''other''] [''w''] () (fs_example, 0) =
     (Inl (LibraryError ''connection refused''), fs_example_zipped, 1) \<and>
   lookup fs_example_zipped ([''other''] @ [zip_name]) = Some (File (Archive entries_example)) \<and>
   (\<exists>fs3. upload_simulation_dir upload_echo [''other''] [''w''] () (fs_example, 0) =
            (Inr (Some (Archive entries_example)), fs3, 1) \<and>
          lookup fs3 ([''other''] @ [zip_name]) = None)"
proof -
  note g = zip_deleted_only_after_successful_upload [OF write_zip_example]
  have zip: "lookup fs_example_zipped ([''other''] @ [zip_name]) = Some (File (Archive entries_example))"
    using g [of upload_fails "()" 0] by (rule conjunct1)
  have "upload_fails fs_example_zipped ([''other''] @ [zip_name]) () 0 =
      (Inl (LibraryError ''connection refused''), 1)"
    by (simp add: upload_fails_def)
  with g [of upload_fails "()" 0]
  have fail: "upload_simulation_dir upload_fails [''other''] [''w''] () (fs_example, 0) =
      (Inl (LibraryError ''connection refused''), fs_example_zipped, 1)"
    by blast
  have "upload_echo fs_example_zipped ([''other''] @ [zip_name]) () 0 =
      (Inr (Some (Archive entries_example)), 1)"
    using zip by (simp add: upload_echo_def file_at_def)
  with g [of upload_echo "()" 0]
  have "\<exists>fs3. upload_simulation_dir upload_echo [''other''] [''w''] () (fs_example, 0) =
            (Inr (Some (Archive entries_example)), fs3, 1) \<and>
          lookup fs3 ([''other''] @ [zip_name]) = None"
    by blast
  with write_zip_example fail zip show ?thesis
    by (intro conjI)
qed

text \<open>
  Claim C2, evaluated where the input directory is the working directory: \<open>/w\<close> holds the
  single file \<open>a.txt\<close> and no \<open>simulation_zipfile.zip\<close>, and the archive that is uploaded
  has two entries, \<open>a.txt\<close> and \<open>simulation_zipfile.zip\<close>: the walk finds the archive file
  that was created before it started.
\<close>

theorem archive_contains_itself:
  "file_at fs_cwd_example [''w'', ''a.txt''] = Some (Raw ''A'') \<and>
   file_at fs_cwd_example [''w'', ''simulation_zipfile.zip''] = None \<and>
   fst (upload_simulation_dir upload_echo [''w''] [''w''] () (fs_cwd_example, 0)) =
     Inr (Some (Archive [([''a.txt''], Raw ''A''), ([''simulation_zipfile.zip''], Raw [])]))"
  by code_simp

subsection \<open>Propagation of library errors\<close>





lemma stops_at_failure_if: "stops_at_failure a \<Longrightarrow> stops_at_failure b \<Longrightarrow> stops_at_failure (if c then a else b)"
  by simp



lemma write_existing:
  "lookup n zp = Some (File d0) \<Longrightarrow> \<exists>n'. write_file n zp d = Inr n'"
proof (induction zp arbitrary: n)
  case Nil
  then show ?case by simp
next
  case (Cons x xs)
  from Cons.prems obtain kids k where n: "n = Dir kids" and k: "map_of kids x = Some k"
    and f: "lookup k xs = Some (File d0)"
    by (cases n) (auto split: option.splits)
  from Cons.IH [OF f] obtain k' where "write_file k xs d = Inr k'"
    by blast
  then show ?case
    by (simp add: n k)
qed




subsection \<open>The \<open>with\<close> block and the named log\<close>


















subsection \<open>The file-system model as an instance\<close>

lemma zip_entry_file_at:
  "zip_entry fs dir p = (case file_at fs (dir @ p) of None \<Rightarrow> None | Some d \<Rightarrow> Some (p, d))"
  by (simp add: zip_entry_def file_at_def split: option.split node.split)

lemma zip_entries_alt:
  "zip_entries fs dir = List.map_filter (zip_entry fs dir) (rglob_at fs dir)"
proof -
  have "zip_entry fs dir =
      (\<lambda>p. case lookup fs (dir @ p) of Some (File d) \<Rightarrow> Some (p, d) | _ \<Rightarrow> None)"
    by (rule ext) (simp add: zip_entry_def)
  then show ?thesis
    by (simp add: zip_entries_def)
qed

lemma and_then_Inr: "m w = (Inr x, w') \<Longrightarrow> and_then m f w = f x w'"
  by (simp add: and_then_def)

lemma and_then_Inl: "m w = (Inl e, w') \<Longrightarrow> and_then m f w = (Inl e, w')"
  by (simp add: and_then_def)

lemma fs_loop_step:
  "zip_one (fs_zip_lib up) zf dir (dir @ p) (fs, es, w) =
     (Inr (), (fs, es @ List.map_filter (zip_entry fs dir) [p], w))"
  unfolding zip_one_def
  by (cases "file_at fs (dir @ p)")
    (simp_all add: and_then_def returns_def fs_zip_lib_def zip_entry_file_at)

lemma fs_loop:
  "for_each (zip_one (fs_zip_lib up) zf dir) (map ((@) dir) ps) (fs, es, w) =
     (Inr (), (fs, es @ List.map_filter (zip_entry fs dir) ps, w))"
proof (induction ps arbitrary: es)
  case Nil
  show ?case by (simp add: returns_def)
next
  case (Cons p ps)
  have "List.map_filter (zip_entry fs dir) (p # ps) =
      List.map_filter (zip_entry fs dir) [p] @ List.map_filter (zip_entry fs dir) ps"
    by (simp split: option.split)
  then show ?case
    by (simp add: and_then_def fs_loop_step Cons.IH)
qed

lemma fs_zip_files:
  "zip_files (fs_zip_lib up) zf dir (fs, [], w) = (Inr (), (fs, zip_entries fs dir, w))"
proof -
  have "rglob_all (fs_zip_lib up) dir (fs, [], w) = (Inr (map ((@) dir) (rglob_at fs dir)), (fs, [], w))"
    by (simp add: fs_zip_lib_def)
  then show ?thesis
    unfolding zip_files_def
    by (simp add: and_then_def fs_loop zip_entries_alt)
qed

lemma fs_zip_lib_simps:
  "zip_open (fs_zip_lib up) zp (fs, es, w) =
     (case write_file fs zp (Raw []) of
        Inl e \<Rightarrow> (Inl e, (fs, es, w)) | Inr fs1 \<Rightarrow> (Inr zp, (fs1, [], w)))"
  "zip_close (fs_zip_lib up) zf (fs, es, w) =
     (case write_file fs zf (Archive es) of
        Inl e \<Rightarrow> (Inl e, (fs, es, w)) | Inr fs2 \<Rightarrow> (Inr (), (fs2, es, w)))"
  "upload_call (fs_zip_lib up) zp job (fs, es, w) =
     (case up fs zp job w of (r, w') \<Rightarrow> (r, (fs, es, w')))"
  "unlink_call (fs_zip_lib up) zp (fs, es, w) =
     (case unlink fs zp of Inl e \<Rightarrow> (Inl e, (fs, es, w)) | Inr fs3 \<Rightarrow> (Inr (), (fs3, es, w)))"
  by (simp_all add: fs_zip_lib_def)

lemma upload_simulation_dir_is_instance:
  "(case upload_simulation_dir_lib (fs_zip_lib upload_simulation) (cwd @ [zip_name]) input_dir
           job_definition (fs, es, w) of
      (r, (fs', es', w')) \<Rightarrow> (r, fs', w')) =
   upload_simulation_dir upload_simulation cwd input_dir job_definition (fs, w)"
proof (cases "write_file fs (cwd @ [zip_name]) (Raw [])")
  case (Inl e)
  then show ?thesis
    by (simp add: upload_simulation_dir_lib_def upload_simulation_dir_def write_zip_def
        and_then_def fs_zip_lib_simps)
next
  case (Inr fs1)
  let ?zp = "cwd @ [zip_name]"
  let ?es = "zip_entries fs1 input_dir"
  from Inr have "lookup fs1 ?zp = Some (File (Raw []))"
    by (rule lookup_written)
  then obtain fs2 where fs2: "write_file fs1 ?zp (Archive ?es) = Inr fs2"
    using write_existing by blast
  have block: "with_exit (zip_files (fs_zip_lib upload_simulation) ?zp input_dir)
      (zip_close (fs_zip_lib upload_simulation) ?zp) (fs1, [], w) = (Inr (), (fs2, ?es, w))"
    by (simp add: with_exit_def fs_zip_files fs_zip_lib_simps fs2)
  have wz: "write_zip fs ?zp input_dir = Inr (?es, fs2)"
    by (simp add: write_zip_def Inr fs2 Let_def)
  obtain r w1 where up: "upload_simulation fs2 ?zp job_definition w = (r, w1)"
    by (cases "upload_simulation fs2 ?zp job_definition w")
  show ?thesis
  proof (cases r)
    case (Inl e)
    then show ?thesis
      by (simp add: upload_simulation_dir_lib_def upload_simulation_dir_def and_then_def
          fs_zip_lib_simps Inr block wz up)
  next
    case (Inr pre_job)
    then show ?thesis
      by (cases "unlink fs2 ?zp")
        (simp_all add: upload_simulation_dir_lib_def upload_simulation_dir_def and_then_def
          returns_def fs_zip_lib_simps \<open>write_file fs ?zp (Raw []) = Inr fs1\<close> block wz up)
  qed
qed

subsection \<open>Errors reach the caller\<close>






end
